theory Spec2Isabelle
  imports Complex_Main "HOL-Library.Sublist"
begin

section \<open>Zone classifier (src/classification/zone\_classifier.py)\<close>

text \<open>
  Python floats are modelled as \<^typ>\<open>real\<close>, Python strings as \<^typ>\<open>string\<close>, a JSON object
  whose keys are iterated or looked up by name as an association list in file order.
  Every exception the modelled code can raise is a value of \<open>py_error\<close>; a method that
  can raise returns \<open>py_error + 'a\<close>. Dictionary keys that occur in several dictionaries
  of the source carry a short prefix naming the dictionary (\<open>r_\<close> for the result of
  \<open>classify_zone\<close>, \<open>c_\<close> for a row of \<open>classify_all_zones\<close>, \<open>z_\<close> for an input row,
  \<open>a_\<close> for an alert, \<open>cfg_\<close> for the top level of the configuration file).
  Methods named \<open>_f\<close> in the source are named \<open>f\<close> here.
\<close>

datatype py_error =
    FileNotFoundError
  | JSONDecodeError
  | TypeError
  | KeyError string
  | ZeroDivisionError
  | IndexError

subsection \<open>Configuration\<close>

record level_info =
  density_min :: real
  density_max :: real
  color_hex :: string
  color_name :: string
  alert_level :: string
  requires_action :: bool
  description :: string

record speed_bands =
  fast :: real

record variance_bands =
  panic :: real

record movement_cfg =
  mt_speed :: speed_bands
  mt_direction_variance :: variance_bands

record weights_cfg =
  density_weight :: real
  speed_weight :: real
  variance_weight :: real

record rule_cfg =
  enabled :: bool
  speed_threshold :: real
  variance_threshold :: real

record panic_cfg = rule_cfg +
  elevation_amount :: int

record elevation_cfg =
  panic_detection :: panic_cfg
  orderly_evacuation :: rule_cfg

record capacity_cfg =
  absolute_max_density :: real

text \<open>
  The parsed configuration file. A top-level key that the file does not have is \<open>None\<close>.
\<close>

record config =
  cfg_classification_thresholds :: "(string \<times> level_info) list option"
  cfg_movement_thresholds :: "movement_cfg option"
  cfg_severity_weights :: "weights_cfg option"
  cfg_elevation_rules :: "elevation_cfg option"
  cfg_capacity_settings :: "capacity_cfg option"

subsection \<open>The classifier object\<close>

record result =
  r_zone_id :: "string option"
  r_level :: string
  r_base_level :: string
  r_color :: string
  r_color_name :: string
  r_alert_level :: string
  r_severity_score :: real
  r_requires_action :: bool
  r_description :: string
  r_density :: real
  r_speed :: "real option"
  r_variance :: "real option"
  r_elevated :: bool
  r_elevation_reason :: "string option"

record classifier =
  config :: config
  thresholds :: "(string \<times> level_info) list"
  movement_thresholds :: movement_cfg
  severity_weights :: weights_cfg
  elevation_rules :: elevation_cfg
  classification_history :: "result list"

text \<open>\<open>self.level_order\<close> is assigned this literal in \<open>__init__\<close> and never changed.\<close>

definition level_order :: "string list" where
  "level_order = [''safe'', ''moderate'', ''warning'', ''critical'', ''emergency'']"





subsection \<open>Density classifier\<close>

text \<open>The loop over \<open>self.thresholds.items()\<close>: the first band that holds the density wins.\<close>

fun classify_bands :: "(string \<times> level_info) list \<Rightarrow> real \<Rightarrow> string" where
  "classify_bands [] density = ''emergency''"
| "classify_bands ((level, th) # rest) density =
     (if density_min th \<le> density \<and> density < density_max th then level
      else classify_bands rest density)"

definition classify_by_density :: "classifier \<Rightarrow> real \<Rightarrow> string" where
  "classify_by_density self density = classify_bands (thresholds self) density"

subsection \<open>Severity score\<close>

definition calculate_severity_score ::
  "classifier \<Rightarrow> real \<Rightarrow> real option \<Rightarrow> real option \<Rightarrow> py_error + real" where
  "calculate_severity_score self density speed variance =
     (case cfg_capacity_settings (config self) of
        None \<Rightarrow> Inl (KeyError ''capacity_settings'')
      | Some cs \<Rightarrow>
         (let max_density = absolute_max_density cs in
          if max_density = 0 then Inl ZeroDivisionError
          else
            (let density_score = min 100 ((density / max_density) * 100) in
             (case (speed, variance) of
                (Some sp, Some var) \<Rightarrow>
                  (let max_speed = fast (mt_speed (movement_thresholds self)) in
                   if max_speed = 0 then Inl ZeroDivisionError
                   else
                     (let speed_score = (1 - min sp max_speed / max_speed) * 100;
                          max_variance =
                            panic (mt_direction_variance (movement_thresholds self))
                      in
                      if max_variance = 0 then Inl ZeroDivisionError
                      else
                        (let variance_score = min 100 ((var / max_variance) * 100);
                             severity =
                               density_score * density_weight (severity_weights self) +
                               speed_score * speed_weight (severity_weights self) +
                               variance_score * variance_weight (severity_weights self)
                         in Inr (max 0 (min 100 severity)))))
              | _ \<Rightarrow> Inr (max 0 (min 100 density_score))))))"

subsection \<open>Movement adjuster\<close>

text \<open>\<open>list.index\<close>: the position of the first occurrence, \<open>None\<close> for \<open>ValueError\<close>.\<close>

fun index_of :: "'a list \<Rightarrow> 'a \<Rightarrow> nat option" where
  "index_of [] x = None"
| "index_of (y # ys) x =
     (if y = x then Some 0 else map_option Suc (index_of ys x))"

text \<open>
  Python list subscript: a negative index counts from the end, an index outside
  \<open>[-len, len)\<close> raises \<open>IndexError\<close>.
\<close>

definition py_getitem :: "'a list \<Rightarrow> int \<Rightarrow> py_error + 'a" where
  "py_getitem xs i =
     (if 0 \<le> i \<and> i < int (length xs) then Inr (xs ! nat i)
      else if - int (length xs) \<le> i \<and> i < 0 then Inr (xs ! nat (int (length xs) + i))
      else Inl IndexError)"

text \<open>
  \<open>_elevate_level\<close>: only \<open>ValueError\<close> (the level is not in \<open>level_order\<close>) is caught;
  an \<open>IndexError\<close> from a very negative elevation amount propagates.
\<close>

definition elevate_level :: "classifier \<Rightarrow> string \<Rightarrow> int \<Rightarrow> py_error + string" where
  "elevate_level self current_level amount =
     (case index_of level_order current_level of
        None \<Rightarrow> Inr current_level
      | Some current_index \<Rightarrow>
          (let new_index = min (int current_index + amount) (int (length level_order) - 1)
           in py_getitem level_order new_index))"

definition panic_reason :: string where
  "panic_reason = ''Panic indicators detected (slow movement + chaos)''"

definition orderly_reason :: string where
  "orderly_reason = ''Orderly evacuation detected''"

text \<open>The second half of \<open>_adjust_by_movement\<close>, reached when the panic rule did not return.\<close>

definition orderly_check ::
  "classifier \<Rightarrow> string \<Rightarrow> real \<Rightarrow> real \<Rightarrow> string \<times> string option" where
  "orderly_check self base_level speed variance =
     (let orderly = orderly_evacuation (elevation_rules self) in
      if enabled orderly \<and> speed > speed_threshold orderly
         \<and> variance < variance_threshold orderly
      then (base_level, Some orderly_reason)
      else (base_level, None))"

definition adjust_by_movement ::
  "classifier \<Rightarrow> string \<Rightarrow> real \<Rightarrow> real \<Rightarrow> real \<Rightarrow> py_error + string \<times> string option" where
  "adjust_by_movement self base_level density speed variance =
     (let pd = panic_detection (elevation_rules self) in
      if enabled pd \<and> speed < speed_threshold pd \<and> variance > variance_threshold pd
      then
        (case elevate_level self base_level (elevation_amount pd) of
           Inl e \<Rightarrow> Inl e
         | Inr elevated_level \<Rightarrow>
             if elevated_level \<noteq> base_level then Inr (elevated_level, Some panic_reason)
             else Inr (orderly_check self base_level speed variance))
      else Inr (orderly_check self base_level speed variance))"

subsection \<open>Classification of one zone\<close>

text \<open>
  \<open>round(x, 2)\<close> on the real line: to the nearest multiple of \<open>1/100\<close>, a tie to the even
  one. (Python rounds the exact value of the binary float; on reals this is the same rule.)
\<close>

definition py_round2 :: "real \<Rightarrow> real" where
  "py_round2 x =
     (let y = x * 100; f = \<lfloor>y\<rfloor>; d = y - of_int f
      in (if d < 1 / 2 then of_int f
          else if d > 1 / 2 then of_int (f + 1)
          else if even f then of_int f else of_int (f + 1)) / 100)"

definition py_getkey :: "(string \<times> 'v) list \<Rightarrow> string \<Rightarrow> py_error + 'v" where
  "py_getkey d k = (case map_of d k of None \<Rightarrow> Inl (KeyError k) | Some v \<Rightarrow> Inr v)"

definition classify_zone ::
  "classifier \<Rightarrow> real \<Rightarrow> real option \<Rightarrow> real option \<Rightarrow> string option
     \<Rightarrow> py_error + result \<times> classifier" where
  "classify_zone self density speed variance zone_id =
     (let base_level = classify_by_density self density in
      case calculate_severity_score self density speed variance of
        Inl e \<Rightarrow> Inl e
      | Inr severity_score \<Rightarrow>
         (case (case (speed, variance) of
                  (Some sp, Some var) \<Rightarrow> adjust_by_movement self base_level density sp var
                | _ \<Rightarrow> Inr (base_level, None)) of
            Inl e \<Rightarrow> Inl e
          | Inr (adjusted_level, elevation_reason) \<Rightarrow>
             (case py_getkey (thresholds self) adjusted_level of
                Inl e \<Rightarrow> Inl e
              | Inr level_info \<Rightarrow>
                 (let res = \<lparr>r_zone_id = zone_id,
                              r_level = adjusted_level,
                              r_base_level = base_level,
                              r_color = color_hex level_info,
                              r_color_name = color_name level_info,
                              r_alert_level = alert_level level_info,
                              r_severity_score = py_round2 severity_score,
                              r_requires_action = requires_action level_info,
                              r_description = description level_info,
                              r_density = density,
                              r_speed = speed,
                              r_variance = variance,
                              r_elevated = (adjusted_level \<noteq> base_level),
                              r_elevation_reason = elevation_reason\<rparr>
                  in Inr (res, self\<lparr>classification_history :=
                                       classification_history self @ [res]\<rparr>)))))"

subsection \<open>Batch classification and its summary\<close>

text \<open>
  A row of the input frame. \<open>zone['density']\<close>, \<open>zone['x_coord']\<close> and \<open>zone['y_coord']\<close>
  are subscripts of columns the frame has; the three columns read with \<open>zone.get\<close> are
  \<open>None\<close> when the frame lacks them.
\<close>

record zone_row =
  z_density :: real
  z_movement_speed :: "real option"
  z_direction_variance :: "real option"
  z_zone_id :: "string option"
  z_x_coord :: int
  z_y_coord :: int

record classified_row =
  c_zone_id :: "string option"
  c_x :: int
  c_y :: int
  c_level :: string
  c_base_level :: string
  c_color :: string
  c_severity :: real
  c_density :: real
  c_speed :: "real option"
  c_variance :: "real option"
  c_requires_action :: bool
  c_elevated :: bool
  c_elevation_reason :: "string option"

text \<open>
  The part of pandas the two methods use. A frame is its column labels and its rows.
  \<open>pd.DataFrame(results)\<close> of a list of dictionaries takes the columns from the
  dictionaries' keys, so the frame of an empty list has no columns; \<open>df[name]\<close> raises
  \<open>KeyError\<close> for a label that is not a column; \<open>mean\<close> and \<open>max\<close> of an empty column
  are \<open>NaN\<close>; \<open>sum\<close> of an empty column is 0.
\<close>

record data_frame =
  df_columns :: "string list"
  df_rows :: "classified_row list"

datatype pd_float = NaN | Float real

definition row_keys :: "string list" where
  "row_keys = [''zone_id'', ''x'', ''y'', ''level'', ''base_level'', ''color'', ''severity'',
               ''density'', ''speed'', ''variance'', ''requires_action'', ''elevated'',
               ''elevation_reason'']"

definition DataFrame :: "classified_row list \<Rightarrow> data_frame" where
  "DataFrame results =
     \<lparr>df_columns = (if results = [] then [] else row_keys), df_rows = results\<rparr>"

definition df_getcol :: "data_frame \<Rightarrow> string \<Rightarrow> (classified_row \<Rightarrow> 'v) \<Rightarrow> py_error + 'v list" where
  "df_getcol df name field =
     (if name \<in> set (df_columns df) then Inr (map field (df_rows df))
      else Inl (KeyError name))"

definition series_mean :: "real list \<Rightarrow> pd_float" where
  "series_mean xs = (if xs = [] then NaN else Float (sum_list xs / real (length xs)))"

definition series_max :: "real list \<Rightarrow> pd_float" where
  "series_max xs = (case xs of [] \<Rightarrow> NaN | x # rest \<Rightarrow> Float (fold max rest x))"

definition series_sum :: "bool list \<Rightarrow> nat" where
  "series_sum bs = length (filter (\<lambda>b. b) bs)"

text \<open>
  The loop of \<open>classify_all_zones\<close>. The classifier is threaded through because
  \<open>classify_zone\<close> appends to its history; an exception ends the loop.
\<close>

fun classify_rows ::
  "classifier \<Rightarrow> zone_row list \<Rightarrow> py_error + classified_row list \<times> classifier" where
  "classify_rows self [] = Inr ([], self)"
| "classify_rows self (zone # rest) =
     (case classify_zone self (z_density zone) (z_movement_speed zone)
             (z_direction_variance zone) (z_zone_id zone) of
        Inl e \<Rightarrow> Inl e
      | Inr (classification, self') \<Rightarrow>
         (case classify_rows self' rest of
            Inl e \<Rightarrow> Inl e
          | Inr (results, self'') \<Rightarrow>
              Inr (\<lparr>c_zone_id = r_zone_id classification,
                    c_x = z_x_coord zone,
                    c_y = z_y_coord zone,
                    c_level = r_level classification,
                    c_base_level = r_base_level classification,
                    c_color = r_color classification,
                    c_severity = r_severity_score classification,
                    c_density = r_density classification,
                    c_speed = r_speed classification,
                    c_variance = r_variance classification,
                    c_requires_action = r_requires_action classification,
                    c_elevated = r_elevated classification,
                    c_elevation_reason = r_elevation_reason classification\<rparr> # results,
                   self'')))"

definition classify_all_zones ::
  "classifier \<Rightarrow> zone_row list \<Rightarrow> py_error + data_frame \<times> classifier" where
  "classify_all_zones self frame_data =
     (case classify_rows self frame_data of
        Inl e \<Rightarrow> Inl e
      | Inr (results, self') \<Rightarrow> Inr (DataFrame results, self'))"

record class_summary =
  total_zones :: nat
  level_counts :: "(string \<times> nat) list"
  level_percentages :: "(string \<times> real) list"
  average_severity :: pd_float
  max_severity :: pd_float
  zones_requiring_action :: nat
  elevated_zones :: nat

text \<open>
  \<open>get_classification_summary\<close>. The dictionary literal reads the columns \<open>severity\<close>
  (twice), \<open>requires_action\<close> and \<open>elevated\<close> in this order, then the loop over
  \<open>level_order\<close> reads \<open>level\<close>.
\<close>

definition get_classification_summary ::
  "classifier \<Rightarrow> data_frame \<Rightarrow> py_error + class_summary" where
  "get_classification_summary self classified_zones =
     (let total = length (df_rows classified_zones) in
      case df_getcol classified_zones ''severity'' c_severity of
        Inl e \<Rightarrow> Inl e
      | Inr severity \<Rightarrow>
      (case df_getcol classified_zones ''requires_action'' c_requires_action of
        Inl e \<Rightarrow> Inl e
      | Inr action \<Rightarrow>
      (case df_getcol classified_zones ''elevated'' c_elevated of
        Inl e \<Rightarrow> Inl e
      | Inr elev \<Rightarrow>
      (case df_getcol classified_zones ''level'' c_level of
        Inl e \<Rightarrow> Inl e
      | Inr levels \<Rightarrow>
          Inr \<lparr>total_zones = total,
               level_counts =
                 map (\<lambda>level. (level, length (filter (\<lambda>l. l = level) levels))) level_order,
               level_percentages =
                 map (\<lambda>level. (level,
                        if total > 0
                        then real (length (filter (\<lambda>l. l = level) levels)) / real total * 100
                        else 0)) level_order,
               average_severity = series_mean severity,
               max_severity = series_max severity,
               zones_requiring_action = series_sum action,
               elevated_zones = series_sum elev\<rparr>))))"

section \<open>Alert manager (src/alerts/alert\_manager.py)\<close>

record visual_cfg =
  v_color :: string
  v_flash :: bool
  v_flash_rate :: real
  v_icon :: string
  v_message :: string

record audio_cfg =
  au_enabled :: bool
  au_frequency :: real
  au_duration :: real
  au_beeps :: nat
  au_pattern :: "(string \<times> real) list"

record alert_cfg =
  priority :: nat
  visual :: visual_cfg
  audio :: audio_cfg

text \<open>\<open>_initialize_alert_config\<close>. The icons are the UTF-8 bytes of the source's characters.\<close>

definition alert_config :: "(string \<times> alert_cfg) list" where
  "alert_config =
     [(''safe'',
        \<lparr>priority = 0,
         visual = \<lparr>v_color = ''#00FF00'', v_flash = False, v_flash_rate = 0,
                   v_icon = [CHR 0xE2, CHR 0x9C, CHR 0x93],
                   v_message = ''Normal Operations''\<rparr>,
         audio = \<lparr>au_enabled = False, au_frequency = 0, au_duration = 0, au_beeps = 0,
                  au_pattern = []\<rparr>\<rparr>),
      (''moderate'',
        \<lparr>priority = 1,
         visual = \<lparr>v_color = ''#7FFF00'', v_flash = False, v_flash_rate = 0,
                   v_icon = [CHR 0xE2, CHR 0x9A, CHR 0xA0],
                   v_message = ''Increased Density - Monitor''\<rparr>,
         audio = \<lparr>au_enabled = False, au_frequency = 0, au_duration = 0, au_beeps = 0,
                  au_pattern = []\<rparr>\<rparr>),
      (''warning'',
        \<lparr>priority = 2,
         visual = \<lparr>v_color = ''#FFFF00'', v_flash = True, v_flash_rate = 1,
                   v_icon = [CHR 0xE2, CHR 0x9A, CHR 0xA0, CHR 0xEF, CHR 0xB8, CHR 0x8F],
                   v_message = ''HIGH DENSITY WARNING''\<rparr>,
         audio = \<lparr>au_enabled = True, au_frequency = 800, au_duration = 3 / 10,
                  au_beeps = 1, au_pattern = [(''beep'', 3 / 10)]\<rparr>\<rparr>),
      (''critical'',
        \<lparr>priority = 3,
         visual = \<lparr>v_color = ''#FF8C00'', v_flash = True, v_flash_rate = 2,
                   v_icon = [CHR 0xF0, CHR 0x9F, CHR 0x94, CHR 0xB4],
                   v_message = ''CRITICAL CONGESTION''\<rparr>,
         audio = \<lparr>au_enabled = True, au_frequency = 1000, au_duration = 1 / 2,
                  au_beeps = 2,
                  au_pattern = [(''beep'', 1 / 2), (''pause'', 1 / 5), (''beep'', 1 / 2)]\<rparr>\<rparr>),
      (''emergency'',
        \<lparr>priority = 4,
         visual = \<lparr>v_color = ''#FF0000'', v_flash = True, v_flash_rate = 3,
                   v_icon = [CHR 0xF0, CHR 0x9F, CHR 0x9A, CHR 0xA8],
                   v_message = ''EMERGENCY - EVACUATE NOW''\<rparr>,
         audio = \<lparr>au_enabled = True, au_frequency = 1200, au_duration = 7 / 10,
                  au_beeps = 3,
                  au_pattern = [(''beep'', 7 / 10), (''pause'', 1 / 5), (''beep'', 7 / 10),
                                (''pause'', 1 / 5), (''beep'', 7 / 10)]\<rparr>\<rparr>)]"

record alert =
  a_timestamp :: real
  a_level :: string
  a_zone_id :: string
  a_severity :: real
  a_priority :: nat
  a_visual :: visual_cfg
  a_audio :: audio_cfg
  a_alert_key :: string

text \<open>
  The manager's mutable state. \<open>last_alert_time\<close> and \<open>alerts_by_level\<close> are
  \<open>defaultdict\<close>s: a partial map, read with the default where the key is absent.
\<close>

record alert_manager =
  cooldown_seconds :: real
  last_alert_time :: "string \<rightharpoonup> real"
  active_alerts :: "alert list"
  alert_history :: "alert list"
  total_alerts_triggered :: nat
  alerts_by_level :: "string \<rightharpoonup> nat"

definition new_manager :: "real \<Rightarrow> alert_manager" where
  "new_manager cooldown =
     \<lparr>cooldown_seconds = cooldown, last_alert_time = Map.empty, active_alerts = [],
      alert_history = [], total_alerts_triggered = 0, alerts_by_level = Map.empty\<rparr>"

text \<open>\<open>self.last_alert_time.get(alert_key, 0)\<close>\<close>

definition last_time :: "alert_manager \<Rightarrow> string \<Rightarrow> real" where
  "last_time self alert_key =
     (case last_alert_time self alert_key of None \<Rightarrow> 0 | Some t \<Rightarrow> t)"

text \<open>\<open>check_cooldown\<close>; \<open>current_time\<close> is the value \<open>time.time()\<close> returns in it.\<close>

definition check_cooldown :: "alert_manager \<Rightarrow> string \<Rightarrow> real \<Rightarrow> bool" where
  "check_cooldown self alert_key current_time =
     (if current_time - last_time self alert_key \<ge> cooldown_seconds self then True
      else False)"

definition alert_levels :: "string list" where
  "alert_levels = [''warning'', ''critical'', ''emergency'']"

definition make_key :: "string \<Rightarrow> string \<Rightarrow> string" where
  "make_key level zone_id = level @ ''_'' @ zone_id"

text \<open>
  \<open>trigger_alert\<close>. The source reads the clock three times: in \<open>check_cooldown\<close>
  (\<open>t_check\<close>), for the alert's timestamp (\<open>t_stamp\<close>) and for the ledger
  (\<open>t_ledger\<close>). The result is the returned value and the manager after the call.
\<close>

definition trigger_alert ::
  "alert_manager \<Rightarrow> string \<Rightarrow> string \<Rightarrow> real \<Rightarrow> real \<Rightarrow> real \<Rightarrow> real
     \<Rightarrow> py_error + alert option \<times> alert_manager" where
  "trigger_alert self level zone_id severity t_check t_stamp t_ledger =
     (if level \<notin> set alert_levels then Inr (None, self)
      else
        (let alert_key = make_key level zone_id in
         if \<not> check_cooldown self alert_key t_check then Inr (None, self)
         else
           (case py_getkey alert_config level of
              Inl e \<Rightarrow> Inl e
            | Inr cfg \<Rightarrow>
               (let alert = \<lparr>a_timestamp = t_stamp,
                              a_level = level,
                              a_zone_id = zone_id,
                              a_severity = severity,
                              a_priority = priority cfg,
                              a_visual = visual cfg,
                              a_audio = audio cfg,
                              a_alert_key = alert_key\<rparr>
                in Inr (Some alert,
                        self\<lparr>last_alert_time := (last_alert_time self)(alert_key \<mapsto> t_ledger),
                             active_alerts := active_alerts self @ [alert],
                             alert_history := alert_history self @ [alert],
                             total_alerts_triggered := total_alerts_triggered self + 1,
                             alerts_by_level :=
                               (alerts_by_level self)
                                 (level \<mapsto> (case alerts_by_level self level of
                                               None \<Rightarrow> 0 | Some n \<Rightarrow> n) + 1)\<rparr>)))))"

subsection \<open>Alert summary\<close>

record 'z alert_summary =
  total_alerts :: nat
  by_level :: "(string \<times> nat) list"
  highest_priority :: "alert option"
  highest_severity :: real
  zones_affected :: 'z

text \<open>\<open>summary['by_level'][level] += 1\<close>, done only when \<open>level in summary['by_level']\<close>.\<close>

definition count_level :: "(string \<times> nat) list \<Rightarrow> string \<Rightarrow> (string \<times> nat) list" where
  "count_level bl level =
     (if level \<in> set (map fst bl)
      then map (\<lambda>(k, c). if k = level then (k, c + 1) else (k, c)) bl
      else bl)"

text \<open>The body of the loop over \<open>alerts\<close>.\<close>

definition summary_step :: "alert \<Rightarrow> string set alert_summary \<Rightarrow> string set alert_summary" where
  "summary_step alert summary =
     (let s1 = summary\<lparr>by_level := count_level (by_level summary) (a_level alert),
                       zones_affected := insert (a_zone_id alert) (zones_affected summary)\<rparr>
      in if a_severity alert > highest_severity s1
         then s1\<lparr>highest_severity := a_severity alert, highest_priority := Some alert\<rparr>
         else s1)"

definition summary_init :: "alert list \<Rightarrow> string set alert_summary" where
  "summary_init alerts =
     \<lparr>total_alerts = length alerts,
      by_level = [(''emergency'', 0), (''critical'', 0), (''warning'', 0)],
      highest_priority = None,
      highest_severity = 0,
      zones_affected = {}\<rparr>"

definition generate_alert_summary :: "alert list \<Rightarrow> nat alert_summary" where
  "generate_alert_summary alerts =
     (let s = fold summary_step alerts (summary_init alerts)
      in \<lparr>total_alerts = total_alerts s,
          by_level = by_level s,
          highest_priority = highest_priority s,
          highest_severity = highest_severity s,
          zones_affected = card (zones_affected s)\<rparr>)"

section \<open>Example inputs\<close>

text \<open>
  A configuration of the shape the classifier reads, with five contiguous bands, used to
  evaluate the definitions at concrete inputs. The bands, the rule switches and the
  orderly thresholds are parameters.
\<close>

definition example_thresholds :: "(string \<times> level_info) list" where
  "example_thresholds =
     [(''safe'', \<lparr>density_min = 0, density_max = 2, color_hex = ''#00FF00'',
                 color_name = ''Green'', alert_level = ''none'', requires_action = False,
                 description = ''Normal''\<rparr>),
      (''moderate'', \<lparr>density_min = 2, density_max = 4, color_hex = ''#7FFF00'',
                 color_name = ''Yellow-Green'', alert_level = ''low'', requires_action = False,
                 description = ''Monitor''\<rparr>),
      (''warning'', \<lparr>density_min = 4, density_max = 11 / 2, color_hex = ''#FFFF00'',
                 color_name = ''Yellow'', alert_level = ''medium'', requires_action = True,
                 description = ''High density''\<rparr>),
      (''critical'', \<lparr>density_min = 11 / 2, density_max = 7, color_hex = ''#FF8C00'',
                 color_name = ''Orange'', alert_level = ''high'', requires_action = True,
                 description = ''Congestion''\<rparr>),
      (''emergency'', \<lparr>density_min = 7, density_max = 10, color_hex = ''#FF0000'',
                 color_name = ''Red'', alert_level = ''critical'', requires_action = True,
                 description = ''Evacuate''\<rparr>)]"

definition example_rules :: "bool \<Rightarrow> bool \<Rightarrow> real \<Rightarrow> real \<Rightarrow> elevation_cfg" where
  "example_rules p_on o_on o_speed o_var =
     \<lparr>panic_detection = \<lparr>enabled = p_on, speed_threshold = 1 / 2,
                          variance_threshold = 120, elevation_amount = 1\<rparr>,
      orderly_evacuation = \<lparr>enabled = o_on, speed_threshold = o_speed,
                          variance_threshold = o_var\<rparr>\<rparr>"

definition example_config :: "(string \<times> level_info) list \<Rightarrow> elevation_cfg \<Rightarrow> config" where
  "example_config th er =
     \<lparr>cfg_classification_thresholds = Some th,
      cfg_movement_thresholds =
        Some \<lparr>mt_speed = \<lparr>fast = 3 / 2\<rparr>, mt_direction_variance = \<lparr>panic = 120\<rparr>\<rparr>,
      cfg_severity_weights =
        Some \<lparr>density_weight = 1 / 2, speed_weight = 1 / 4, variance_weight = 1 / 4\<rparr>,
      cfg_elevation_rules = Some er,
      cfg_capacity_settings = Some \<lparr>absolute_max_density = 8\<rparr>\<rparr>"

definition example_classifier :: "(string \<times> level_info) list \<Rightarrow> elevation_cfg \<Rightarrow> classifier" where
  "example_classifier th er =
     \<lparr>config = example_config th er,
      thresholds = th,
      movement_thresholds = \<lparr>mt_speed = \<lparr>fast = 3 / 2\<rparr>, mt_direction_variance = \<lparr>panic = 120\<rparr>\<rparr>,
      severity_weights = \<lparr>density_weight = 1 / 2, speed_weight = 1 / 4, variance_weight = 1 / 4\<rparr>,
      elevation_rules = er,
      classification_history = []\<rparr>"

text \<open>An alert dictionary with the given level, priority, zone and severity.\<close>

definition example_alert :: "string \<Rightarrow> nat \<Rightarrow> string \<Rightarrow> real \<Rightarrow> alert" where
  "example_alert level prio zone sev =
     \<lparr>a_timestamp = 0, a_level = level, a_zone_id = zone, a_severity = sev, a_priority = prio,
      a_visual = \<lparr>v_color = ''#FFFFFF'', v_flash = False, v_flash_rate = 0, v_icon = ''!'',
                  v_message = ''Example''\<rparr>,
      a_audio = \<lparr>au_enabled = False, au_frequency = 0, au_duration = 0, au_beeps = 0,
                 au_pattern = []\<rparr>,
      a_alert_key = make_key level zone\<rparr>"

section \<open>Properties of the zone classifier\<close>

lemma classify_bands_no_match:
  "\<forall>(level, th) \<in> set bands. \<not> (density_min th \<le> d \<and> d < density_max th)
     \<Longrightarrow> classify_bands bands d = ''emergency''"
  by (induction bands) auto


text \<open>
  C9. A density that no configured band holds (below the lowest band, in a gap between
  bands, or at or above every band) is classified as \<open>emergency\<close>.
\<close>

theorem C9_unmatched_density_is_emergency: 
  "\<forall>(level, th) \<in> set (thresholds self). \<not> (density_min th \<le> d \<and> d < density_max th)
     \<Longrightarrow> classify_by_density self d = ''emergency''"
  unfolding classify_by_density_def by (rule classify_bands_no_match)

theorem C9_unmatched_density_witness:
  "\<not> list_ex (\<lambda>(level, th). density_min th \<le> - 1 \<and> - 1 < density_max th)
        (thresholds (example_classifier example_thresholds (example_rules True True 1 60)))
   \<and> classify_by_density (example_classifier example_thresholds (example_rules True True 1 60))
        (- 1) = ''emergency''
   \<and> classify_by_density (example_classifier (take 3 example_thresholds)
        (example_rules True True 1 60)) 6 = ''emergency''"
  using C9_unmatched_density_is_emergency
          [of "example_classifier example_thresholds (example_rules True True 1 60)" "- 1"]
        C9_unmatched_density_is_emergency
          [of "example_classifier (take 3 example_thresholds) (example_rules True True 1 60)" 6]
  by (simp add: example_classifier_def example_thresholds_def)

text \<open>
  C1. With a positive \<open>absolute_max_density\<close> and speed and variance absent, the score of
  a density \<open>d \<ge> 0\<close> is the density component \<open>min(100, d / max_density * 100)\<close>, lies in
  \<open>[0, 100]\<close>, is non-decreasing in \<open>d\<close>, and is 100 for every \<open>d \<ge> max_density\<close>.
\<close>

theorem C1_density_only_score:
  assumes "cfg_capacity_settings (config self) = Some cs" and "0 < absolute_max_density cs"
  shows "(\<forall>d\<ge>0. calculate_severity_score self d None None
                   = Inr (min 100 (d / absolute_max_density cs * 100))
               \<and> 0 \<le> min 100 (d / absolute_max_density cs * 100)
               \<and> min 100 (d / absolute_max_density cs * 100) \<le> 100)
       \<and> (\<forall>d1 d2. 0 \<le> d1 \<and> d1 \<le> d2 \<longrightarrow>
             (\<exists>s1 s2. calculate_severity_score self d1 None None = Inr s1
                    \<and> calculate_severity_score self d2 None None = Inr s2 \<and> s1 \<le> s2))
       \<and> (\<forall>d\<ge>absolute_max_density cs. calculate_severity_score self d None None = Inr 100)"
proof -
  let ?m = "absolute_max_density cs"
  have score: "calculate_severity_score self d None None = Inr (min 100 (d / ?m * 100))"
    if "0 \<le> d" for d
  proof -
    have "0 \<le> d / ?m * 100" using that assms(2) by simp
    then show ?thesis using assms by (simp add: calculate_severity_score_def Let_def)
  qed
  have mono: "min 100 (d1 / ?m * 100) \<le> min 100 (d2 / ?m * 100)" if "d1 \<le> d2" for d1 d2 :: real
  proof -
    have x: "d1 / ?m * 100 \<le> d2 / ?m * 100"
      using that assms(2) by (intro mult_right_mono divide_right_mono) simp_all
    show ?thesis using min.mono [OF order_refl x] .
  qed
  have top: "min 100 (d / ?m * 100) = 100" if "?m \<le> d" for d
  proof -
    have "1 \<le> d / ?m" using that assms(2) by simp
    then have "1 * 100 \<le> d / ?m * 100" by (intro mult_right_mono) simp_all
    then have "100 \<le> d / ?m * 100" by simp
    then show ?thesis by (rule min_absorb1)
  qed
  have a: "\<forall>d\<ge>0. calculate_severity_score self d None None = Inr (min 100 (d / ?m * 100))
               \<and> 0 \<le> min 100 (d / ?m * 100) \<and> min 100 (d / ?m * 100) \<le> 100"
    using score assms(2) by simp
  have b: "\<forall>d1 d2. 0 \<le> d1 \<and> d1 \<le> d2 \<longrightarrow>
             (\<exists>s1 s2. calculate_severity_score self d1 None None = Inr s1
                    \<and> calculate_severity_score self d2 None None = Inr s2 \<and> s1 \<le> s2)"
  proof (intro allI impI)
    fix d1 d2 :: real assume h: "0 \<le> d1 \<and> d1 \<le> d2"
    then have "0 \<le> d2" by simp
    with h show "\<exists>s1 s2. calculate_severity_score self d1 None None = Inr s1
                    \<and> calculate_severity_score self d2 None None = Inr s2 \<and> s1 \<le> s2"
      using score [of d1] score [of d2] mono [of d1 d2] by simp
  qed
  have c: "\<forall>d\<ge>?m. calculate_severity_score self d None None = Inr 100"
  proof (intro allI impI)
    fix d assume h: "?m \<le> d"
    then have "0 \<le> d" using assms(2) by simp
    then show "calculate_severity_score self d None None = Inr 100"
      using score [of d] top [OF h] by simp
  qed
  from a b c show ?thesis by blast
qed

theorem C1_density_only_score_witness:
  "cfg_capacity_settings (config (example_classifier example_thresholds (example_rules True True 1 60)))
     = Some \<lparr>absolute_max_density = 8\<rparr>
   \<and> (0::real) < absolute_max_density \<lparr>absolute_max_density = 8\<rparr>
   \<and> calculate_severity_score (example_classifier example_thresholds (example_rules True True 1 60)) 2 None None = Inr 25
   \<and> calculate_severity_score (example_classifier example_thresholds (example_rules True True 1 60)) 9 None None = Inr 100"
proof -
  let ?c = "example_classifier example_thresholds (example_rules True True 1 60)"
  have h1: "cfg_capacity_settings (config ?c) = Some \<lparr>absolute_max_density = 8\<rparr>"
    by (simp add: example_classifier_def example_config_def)
  have h2: "(0::real) < absolute_max_density \<lparr>absolute_max_density = 8\<rparr>" by simp
  from C1_density_only_score [OF h1 h2] have
    "calculate_severity_score ?c 2 None None = Inr (min 100 (2 / 8 * 100))"
    and "calculate_severity_score ?c 9 None None = Inr 100"
    by simp_all
  with h1 h2 show ?thesis by simp
qed

lemma elevate_warning_1: "elevate_level self ''warning'' 1 = Inr ''critical''"
  by (simp add: elevate_level_def level_order_def py_getitem_def)

lemma elevate_emergency_pos: "0 < n \<Longrightarrow> elevate_level self ''emergency'' n = Inr ''emergency''"
  by (simp add: elevate_level_def level_order_def py_getitem_def min_def)

lemma panic_reason_prefix: "prefix ''Panic indicators detected'' panic_reason"
  by (simp add: panic_reason_def)

text \<open>
  C2 (amended). With the panic rule enabled, base level \<open>warning\<close>, speed below and variance
  above the panic thresholds and elevation amount 1, the adjuster returns \<open>critical\<close> with
  a reason that begins "Panic indicators detected". With the orderly rule enabled, speed
  above and variance below the orderly thresholds and the panic condition not holding, it
  returns the base level unchanged with the reason "Orderly evacuation detected".
\<close>

theorem C2_movement_adjuster_enabled_rules:
  "(enabled (panic_detection (elevation_rules self))
      \<and> speed < speed_threshold (panic_detection (elevation_rules self))
      \<and> variance > variance_threshold (panic_detection (elevation_rules self))
      \<and> elevation_amount (panic_detection (elevation_rules self)) = 1
    \<longrightarrow> adjust_by_movement self ''warning'' density speed variance
          = Inr (''critical'', Some panic_reason)
        \<and> prefix ''Panic indicators detected'' panic_reason)
   \<and> (enabled (orderly_evacuation (elevation_rules self))
      \<and> speed > speed_threshold (orderly_evacuation (elevation_rules self))
      \<and> variance < variance_threshold (orderly_evacuation (elevation_rules self))
      \<and> \<not> (speed < speed_threshold (panic_detection (elevation_rules self))
           \<and> variance > variance_threshold (panic_detection (elevation_rules self)))
    \<longrightarrow> adjust_by_movement self base_level density speed variance
          = Inr (base_level, Some ''Orderly evacuation detected''))"
  by (auto simp: adjust_by_movement_def orderly_check_def Let_def elevate_warning_1
                 panic_reason_prefix orderly_reason_def)

text \<open>
  C2 as stated fails where the panic rule is switched off: the panic condition holds,
  the elevation amount is 1, and \<open>warning\<close> is returned with no reason.
\<close>

theorem C2_panic_rule_disabled_counterexample:
  "(2 / 5 :: real) < speed_threshold (panic_detection (elevation_rules
        (example_classifier example_thresholds (example_rules False True 1 60))))
   \<and> (135 :: real) > variance_threshold (panic_detection (elevation_rules
        (example_classifier example_thresholds (example_rules False True 1 60))))
   \<and> elevation_amount (panic_detection (elevation_rules
        (example_classifier example_thresholds (example_rules False True 1 60)))) = 1
   \<and> adjust_by_movement (example_classifier example_thresholds (example_rules False True 1 60))
        ''warning'' 4 (2 / 5) 135 = Inr (''warning'', None)"
  by (simp add: adjust_by_movement_def orderly_check_def Let_def example_classifier_def
                example_rules_def)

theorem C2_movement_adjuster_witness:
  "adjust_by_movement (example_classifier example_thresholds (example_rules True True 1 60))
        ''warning'' 4 (2 / 5) 135 = Inr (''critical'', Some panic_reason)
   \<and> adjust_by_movement (example_classifier example_thresholds (example_rules True True 1 60))
        ''warning'' 4 (8 / 5) 50 = Inr (''warning'', Some ''Orderly evacuation detected'')"
  using C2_movement_adjuster_enabled_rules [of "example_classifier example_thresholds (example_rules True True 1 60)"
               "2 / 5" 135 4 "''warning''"]
        C2_movement_adjuster_enabled_rules [of "example_classifier example_thresholds (example_rules True True 1 60)"
               "8 / 5" 50 4 "''warning''"]
  by (simp add: example_classifier_def example_rules_def)

lemma orderly_check_fst: "fst (orderly_check self base speed variance) = base"
  by (simp add: orderly_check_def Let_def)

lemma orderly_check_not_panic: "snd (orderly_check self base speed variance) \<noteq> Some panic_reason"
  by (simp add: orderly_check_def Let_def orderly_reason_def panic_reason_def)

lemma adjust_same_level:
  assumes "adjust_by_movement self base density speed variance = Inr (base, reason)"
  shows "reason \<noteq> Some panic_reason"
proof -
  have "reason = snd (orderly_check self base speed variance)"
    using assms
    by (auto simp: adjust_by_movement_def Let_def split: if_splits sum.splits)
  then show ?thesis by (simp add: orderly_check_not_panic)
qed

lemma adjust_clamped:
  assumes "elevate_level self base (elevation_amount (panic_detection (elevation_rules self)))
             = Inr base"
  shows "adjust_by_movement self base density speed variance
           = Inr (orderly_check self base speed variance)"
  using assms by (simp add: adjust_by_movement_def Let_def)

text \<open>
  C3. Elevating \<open>emergency\<close> by a positive amount yields \<open>emergency\<close>. When the panic
  condition holds and the clamped level equals the base level, the adjuster returns the
  base level and no panic reason; for a zone whose base level is \<open>emergency\<close> the record
  of \<open>classify_zone\<close> has level \<open>emergency\<close>, \<open>elevated = False\<close> and no panic reason.
\<close>

theorem C3_clamped_elevation_not_reported:
  "(\<forall>n>0. elevate_level self ''emergency'' n = Inr ''emergency'')
   \<and> (speed < speed_threshold (panic_detection (elevation_rules self))
        \<and> variance > variance_threshold (panic_detection (elevation_rules self))
        \<and> elevate_level self base (elevation_amount (panic_detection (elevation_rules self)))
            = Inr base
      \<longrightarrow> (\<exists>reason. adjust_by_movement self base density speed variance = Inr (base, reason)
                    \<and> reason \<noteq> Some panic_reason))
   \<and> (classify_by_density self density = ''emergency''
        \<and> 0 < elevation_amount (panic_detection (elevation_rules self))
        \<and> speed < speed_threshold (panic_detection (elevation_rules self))
        \<and> variance > variance_threshold (panic_detection (elevation_rules self))
        \<and> classify_zone self density (Some speed) (Some variance) zone_id = Inr (r, self')
      \<longrightarrow> r_base_level r = ''emergency'' \<and> r_level r = ''emergency''
          \<and> \<not> r_elevated r \<and> r_elevation_reason r \<noteq> Some panic_reason)"
proof -
  have p1: "\<forall>n>0. elevate_level self ''emergency'' n = Inr ''emergency''"
    by (simp add: elevate_emergency_pos)
  have p2: "\<exists>reason. adjust_by_movement self base density speed variance = Inr (base, reason)
                    \<and> reason \<noteq> Some panic_reason"
    if "elevate_level self base (elevation_amount (panic_detection (elevation_rules self)))
            = Inr base"
  proof -
    have "adjust_by_movement self base density speed variance
               = Inr (base, snd (orderly_check self base speed variance))"
      using adjust_clamped [OF that, of density speed variance]
            orderly_check_fst [of self base speed variance]
      by (metis prod.collapse)
    then show ?thesis using orderly_check_not_panic by blast
  qed
  have p3: "r_base_level r = ''emergency'' \<and> r_level r = ''emergency''
          \<and> \<not> r_elevated r \<and> r_elevation_reason r \<noteq> Some panic_reason"
    if base: "classify_by_density self density = ''emergency''"
      and pos: "0 < elevation_amount (panic_detection (elevation_rules self))"
      and cz: "classify_zone self density (Some speed) (Some variance) zone_id = Inr (r, self')"
  proof -
    have el: "elevate_level self ''emergency''
                (elevation_amount (panic_detection (elevation_rules self))) = Inr ''emergency''"
      using pos by (rule elevate_emergency_pos)
    have adj: "adjust_by_movement self ''emergency'' density speed variance
               = Inr (''emergency'', snd (orderly_check self ''emergency'' speed variance))"
      using adjust_clamped [OF el, of density speed variance]
            orderly_check_fst [of self "''emergency''" speed variance]
      by (metis prod.collapse)
    have "r_base_level r = ''emergency'' \<and> r_level r = ''emergency'' \<and> \<not> r_elevated r
           \<and> r_elevation_reason r = snd (orderly_check self ''emergency'' speed variance)"
      using cz by (auto simp: classify_zone_def Let_def base adj split: sum.splits)
    then show ?thesis
      using orderly_check_not_panic [of self "''emergency''" speed variance] by simp
  qed
  from p1 p2 p3 show ?thesis by blast
qed

theorem C3_clamped_elevation_witness:
  "classify_by_density (example_classifier example_thresholds (example_rules True True 1 60))
       8 = ''emergency''
   \<and> (\<exists>r s. classify_zone (example_classifier example_thresholds (example_rules True True 1 60))
               8 (Some (3 / 10)) (Some 150) (Some ''Z1'') = Inr (r, s)
            \<and> r_level r = ''emergency'' \<and> \<not> r_elevated r \<and> r_elevation_reason r = None)
   \<and> elevate_level (example_classifier example_thresholds (example_rules True True 1 60))
        ''emergency'' 2 = Inr ''emergency''"
proof -
  let ?c = "example_classifier example_thresholds (example_rules True True 1 60)"
  have base: "classify_by_density ?c 8 = ''emergency''"
    by (simp add: classify_by_density_def example_classifier_def example_thresholds_def)
  have sc: "calculate_severity_score ?c 8 (Some (3 / 10)) (Some 150) = Inr 95"
    by (simp add: calculate_severity_score_def example_classifier_def example_config_def Let_def)
  have adj: "adjust_by_movement ?c ''emergency'' 8 (3 / 10) 150 = Inr (''emergency'', None)"
    by (simp add: adjust_by_movement_def orderly_check_def Let_def example_classifier_def
                  example_rules_def elevate_level_def level_order_def py_getitem_def)
  have key: "\<exists>li. py_getkey (thresholds ?c) ''emergency'' = Inr li"
    by (simp add: py_getkey_def example_classifier_def example_thresholds_def)
  have ex: "\<exists>r s. classify_zone ?c 8 (Some (3 / 10)) (Some 150) (Some ''Z1'') = Inr (r, s)"
    using key by (auto simp: classify_zone_def Let_def base sc adj)
  then obtain r s where
    cz: "classify_zone ?c 8 (Some (3 / 10)) (Some 150) (Some ''Z1'') = Inr (r, s)"
    by blast
  have amt: "0 < elevation_amount (panic_detection (elevation_rules ?c))"
    and sp: "3 / 10 < speed_threshold (panic_detection (elevation_rules ?c))"
    and va: "150 > variance_threshold (panic_detection (elevation_rules ?c))"
    by (simp_all add: example_classifier_def example_rules_def)
  have "r_level r = ''emergency'' \<and> \<not> r_elevated r"
    using C3_clamped_elevation_not_reported [of ?c "3 / 10" 150 "''emergency''" 8 "Some ''Z1''" r s] base amt sp va cz
    by simp
  moreover have "r_elevation_reason r = None"
    using cz by (auto simp: classify_zone_def Let_def base sc adj split: sum.splits)
  moreover have "elevate_level ?c ''emergency'' 2 = Inr ''emergency''"
    using C3_clamped_elevation_not_reported [of ?c "3 / 10" 150 "''emergency''" 8 "Some ''Z1''" r s] by simp
  ultimately show ?thesis using base cz by blast
qed

text \<open>
  C4 (amended). With both rules enabled: when the panic condition holds and the clamped
  elevated level differs from the base level, the panic result is returned, whatever the
  orderly rule says. Evaluation falls through to the orderly rule when the panic condition
  does not hold, and also when it holds but the elevated level equals the base level; the
  result is then the orderly rule's: the base level with the orderly reason when the
  orderly condition holds, the base level with no reason otherwise.
\<close>

theorem C4_panic_precedence_unless_clamped:
  "(enabled (panic_detection (elevation_rules self))
      \<and> speed < speed_threshold (panic_detection (elevation_rules self))
      \<and> variance > variance_threshold (panic_detection (elevation_rules self))
      \<and> elevate_level self base (elevation_amount (panic_detection (elevation_rules self)))
           = Inr e
      \<and> e \<noteq> base
    \<longrightarrow> adjust_by_movement self base density speed variance = Inr (e, Some panic_reason))
   \<and> (enabled (panic_detection (elevation_rules self))
      \<and> enabled (orderly_evacuation (elevation_rules self))
      \<and> (\<not> (speed < speed_threshold (panic_detection (elevation_rules self))
             \<and> variance > variance_threshold (panic_detection (elevation_rules self)))
          \<or> elevate_level self base (elevation_amount (panic_detection (elevation_rules self)))
               = Inr base)
    \<longrightarrow> adjust_by_movement self base density speed variance
          = Inr (if speed > speed_threshold (orderly_evacuation (elevation_rules self))
                    \<and> variance < variance_threshold (orderly_evacuation (elevation_rules self))
                 then (base, Some orderly_reason)
                 else (base, None)))"
  by (auto simp: adjust_by_movement_def orderly_check_def Let_def)

text \<open>
  C4 as stated fails at base level \<open>emergency\<close>: both rules are enabled, both conditions hold,
  and the orderly rule's result is returned.
\<close>

theorem C4_fall_through_counterexample:
  "enabled (panic_detection (elevation_rules
       (example_classifier example_thresholds (example_rules True True (3 / 10) 150))))
   \<and> enabled (orderly_evacuation (elevation_rules
       (example_classifier example_thresholds (example_rules True True (3 / 10) 150))))
   \<and> (2 / 5 :: real) < speed_threshold (panic_detection (elevation_rules
       (example_classifier example_thresholds (example_rules True True (3 / 10) 150))))
   \<and> (130 :: real) > variance_threshold (panic_detection (elevation_rules
       (example_classifier example_thresholds (example_rules True True (3 / 10) 150))))
   \<and> (2 / 5 :: real) > speed_threshold (orderly_evacuation (elevation_rules
       (example_classifier example_thresholds (example_rules True True (3 / 10) 150))))
   \<and> (130 :: real) < variance_threshold (orderly_evacuation (elevation_rules
       (example_classifier example_thresholds (example_rules True True (3 / 10) 150))))
   \<and> adjust_by_movement (example_classifier example_thresholds (example_rules True True (3 / 10) 150))
        ''emergency'' 8 (2 / 5) 130 = Inr (''emergency'', Some orderly_reason)
   \<and> orderly_reason \<noteq> panic_reason"
  by (simp add: adjust_by_movement_def orderly_check_def Let_def example_classifier_def
                example_rules_def elevate_level_def level_order_def py_getitem_def
                orderly_reason_def panic_reason_def)

theorem C4_panic_precedence_witness:
  "adjust_by_movement (example_classifier example_thresholds (example_rules True True (3 / 10) 150))
        ''warning'' 4 (2 / 5) 130 = Inr (''critical'', Some panic_reason)
   \<and> adjust_by_movement (example_classifier example_thresholds (example_rules True True (3 / 10) 150))
        ''emergency'' 8 (2 / 5) 130 = Inr (''emergency'', Some orderly_reason)
   \<and> adjust_by_movement (example_classifier example_thresholds (example_rules True True (3 / 10) 150))
        ''warning'' 4 1 130 = Inr (''warning'', Some orderly_reason)
   \<and> adjust_by_movement (example_classifier example_thresholds (example_rules True True (3 / 10) 150))
        ''warning'' 4 1 200 = Inr (''warning'', None)"
proof -
  let ?c = "example_classifier example_thresholds (example_rules True True (3 / 10) 150)"
  have e1: "elevate_level ?c ''warning'' (elevation_amount (panic_detection (elevation_rules ?c)))
              = Inr ''critical''"
    by (simp add: example_classifier_def example_rules_def elevate_warning_1)
  have e2: "elevate_level ?c ''emergency'' (elevation_amount (panic_detection (elevation_rules ?c)))
              = Inr ''emergency''"
    by (simp add: example_classifier_def example_rules_def elevate_emergency_pos)
  have c: "enabled (panic_detection (elevation_rules ?c))"
    "enabled (orderly_evacuation (elevation_rules ?c))"
    "speed_threshold (panic_detection (elevation_rules ?c)) = 1 / 2"
    "variance_threshold (panic_detection (elevation_rules ?c)) = 120"
    "speed_threshold (orderly_evacuation (elevation_rules ?c)) = 3 / 10"
    "variance_threshold (orderly_evacuation (elevation_rules ?c)) = 150"
    by (simp_all add: example_classifier_def example_rules_def)
  have p1: "adjust_by_movement ?c ''warning'' 4 (2 / 5) 130 = Inr (''critical'', Some panic_reason)"
    using C4_panic_precedence_unless_clamped [of ?c "2 / 5" 130 "''warning''" "''critical''" 4]
          c e1
    by simp
  have p2: "adjust_by_movement ?c ''emergency'' 8 (2 / 5) 130
              = Inr (''emergency'', Some orderly_reason)"
    using C4_panic_precedence_unless_clamped [of ?c "2 / 5" 130 "''emergency''" "''emergency''" 8]
          c e2
    by simp
  have p3: "adjust_by_movement ?c ''warning'' 4 1 130 = Inr (''warning'', Some orderly_reason)"
    using C4_panic_precedence_unless_clamped [of ?c 1 130 "''warning''" "''critical''" 4] c
    by simp
  have p4: "adjust_by_movement ?c ''warning'' 4 1 200 = Inr (''warning'', None)"
    using C4_panic_precedence_unless_clamped [of ?c 1 200 "''warning''" "''critical''" 4] c
    by simp
  from p1 p2 p3 p4 show ?thesis by simp
qed





section \<open>Properties of the alert manager\<close>

lemma alert_config_lookup:
  "level \<in> set alert_levels \<Longrightarrow> \<exists>cfg. py_getkey alert_config level = Inr cfg"
  by (auto simp: alert_levels_def py_getkey_def alert_config_def)

lemma make_key_inject:
  assumes "level \<in> {''warning'', ''critical'', ''emergency''}"
    and "level' \<in> {''warning'', ''critical'', ''emergency''}"
    and "make_key level' zone' = make_key level zone"
  shows "level' = level \<and> zone' = zone"
  using assms by (auto simp: make_key_def)

lemma last_time_other_key:
  assumes "trigger_alert self level zone severity t_check t_stamp t_ledger = Inr (Some a, s')"
    and "key \<noteq> make_key level zone"
  shows "last_time s' key = last_time self key"
  using assms
  by (auto simp: trigger_alert_def last_time_def Let_def split: if_splits sum.splits)

text \<open>
  C5. \<open>trigger_alert\<close> returns an alert exactly when the level is \<open>warning\<close>, \<open>critical\<close> or
  \<open>emergency\<close> and the time since the ledger's timestamp for the key (0 for a key the
  ledger does not hold) is at least the cooldown. In every other case it returns \<open>None\<close>
  and the manager is unchanged. On success the ledger holds the new timestamp for the
  key, the alert is appended to the active list and to the history, and the counters are
  incremented. The call never raises. The key belongs to one (level, zone) pair: two
  pairs of alerting levels with the same key are equal, and a successful call leaves the
  ledger's timestamp of every other pair as it was.
\<close>

theorem C5_trigger_alert_gate:
  "((\<exists>a s'. trigger_alert self level zone_id severity t_check t_stamp t_ledger = Inr (Some a, s'))
      \<longleftrightarrow> (level \<in> {''warning'', ''critical'', ''emergency''}
           \<and> t_check - last_time self (make_key level zone_id) \<ge> cooldown_seconds self))
   \<and> (\<not> (level \<in> {''warning'', ''critical'', ''emergency''}
           \<and> t_check - last_time self (make_key level zone_id) \<ge> cooldown_seconds self)
       \<longrightarrow> trigger_alert self level zone_id severity t_check t_stamp t_ledger = Inr (None, self))
   \<and> (\<forall>a s'. trigger_alert self level zone_id severity t_check t_stamp t_ledger = Inr (Some a, s')
       \<longrightarrow> last_alert_time s' = (last_alert_time self)(make_key level zone_id \<mapsto> t_ledger)
         \<and> active_alerts s' = active_alerts self @ [a]
         \<and> alert_history s' = alert_history self @ [a]
         \<and> total_alerts_triggered s' = total_alerts_triggered self + 1
         \<and> alerts_by_level s' =
             (alerts_by_level self)
               (level \<mapsto> (case alerts_by_level self level of None \<Rightarrow> 0 | Some n \<Rightarrow> n) + 1)
         \<and> cooldown_seconds s' = cooldown_seconds self
         \<and> a_level a = level \<and> a_zone_id a = zone_id \<and> a_severity a = severity
         \<and> a_timestamp a = t_stamp \<and> a_alert_key a = make_key level zone_id
         \<and> last_time s' (make_key level zone_id) = t_ledger)
   \<and> (\<forall>level' zone'. level \<in> {''warning'', ''critical'', ''emergency''}
         \<and> level' \<in> {''warning'', ''critical'', ''emergency''}
         \<and> make_key level' zone' = make_key level zone_id
       \<longrightarrow> level' = level \<and> zone' = zone_id)
   \<and> (\<forall>a s' level' zone'.
         trigger_alert self level zone_id severity t_check t_stamp t_ledger = Inr (Some a, s')
         \<and> level' \<in> {''warning'', ''critical'', ''emergency''}
         \<and> (level' \<noteq> level \<or> zone' \<noteq> zone_id)
       \<longrightarrow> last_time s' (make_key level' zone') = last_time self (make_key level' zone'))"
proof -
  let ?ok = "level \<in> {''warning'', ''critical'', ''emergency''}
           \<and> t_check - last_time self (make_key level zone_id) \<ge> cooldown_seconds self"
  let ?t = "trigger_alert self level zone_id severity t_check t_stamp t_ledger"
  have lv: "level \<in> set alert_levels \<longleftrightarrow> level \<in> {''warning'', ''critical'', ''emergency''}"
    by (simp add: alert_levels_def)
  have no: "?t = Inr (None, self)" if "\<not> ?ok"
    using that lv by (auto simp: trigger_alert_def check_cooldown_def Let_def)
  have yes: "\<exists>a s'. ?t = Inr (Some a, s')" if "?ok"
  proof -
    from that lv have "level \<in> set alert_levels" by simp
    then obtain cfg where "py_getkey alert_config level = Inr cfg"
      using alert_config_lookup by blast
    then show ?thesis
      using that lv by (simp add: trigger_alert_def check_cooldown_def Let_def)
  qed
  have iff: "(\<exists>a s'. ?t = Inr (Some a, s')) \<longleftrightarrow> ?ok"
    using no yes by (metis Inr_inject option.distinct(1) prod.inject)
  have eff: "\<forall>a s'. ?t = Inr (Some a, s')
       \<longrightarrow> last_alert_time s' = (last_alert_time self)(make_key level zone_id \<mapsto> t_ledger)
         \<and> active_alerts s' = active_alerts self @ [a]
         \<and> alert_history s' = alert_history self @ [a]
         \<and> total_alerts_triggered s' = total_alerts_triggered self + 1
         \<and> alerts_by_level s' =
             (alerts_by_level self)
               (level \<mapsto> (case alerts_by_level self level of None \<Rightarrow> 0 | Some n \<Rightarrow> n) + 1)
         \<and> cooldown_seconds s' = cooldown_seconds self
         \<and> a_level a = level \<and> a_zone_id a = zone_id \<and> a_severity a = severity
         \<and> a_timestamp a = t_stamp \<and> a_alert_key a = make_key level zone_id
         \<and> last_time s' (make_key level zone_id) = t_ledger"
    by (auto simp: trigger_alert_def last_time_def Let_def split: if_splits sum.splits)
  have inj: "\<forall>level' zone'. level \<in> {''warning'', ''critical'', ''emergency''}
         \<and> level' \<in> {''warning'', ''critical'', ''emergency''}
         \<and> make_key level' zone' = make_key level zone_id
       \<longrightarrow> level' = level \<and> zone' = zone_id"
    using make_key_inject by blast
  have other: "\<forall>a s' level' zone'. ?t = Inr (Some a, s')
         \<and> level' \<in> {''warning'', ''critical'', ''emergency''}
         \<and> (level' \<noteq> level \<or> zone' \<noteq> zone_id)
       \<longrightarrow> last_time s' (make_key level' zone') = last_time self (make_key level' zone')"
  proof (intro allI impI)
    fix a s' level' zone'
    assume h: "?t = Inr (Some a, s')
         \<and> level' \<in> {''warning'', ''critical'', ''emergency''}
         \<and> (level' \<noteq> level \<or> zone' \<noteq> zone_id)"
    then have "\<exists>a s'. ?t = Inr (Some a, s')" by blast
    with iff have "level \<in> {''warning'', ''critical'', ''emergency''}" by blast
    with h have "make_key level' zone' \<noteq> make_key level zone_id"
      using make_key_inject [of level level' zone' zone_id] by blast
    with h show "last_time s' (make_key level' zone') = last_time self (make_key level' zone')"
      using last_time_other_key by blast
  qed
  from iff no eff inj other show ?thesis by blast
qed

theorem C5_trigger_alert_witness:
  "(\<exists>a s'. trigger_alert (new_manager (5 / 2)) ''warning'' ''Z1'' 50 100 100 100 = Inr (Some a, s')
           \<and> active_alerts s' = [a] \<and> alert_history s' = [a]
           \<and> last_alert_time s' (make_key ''warning'' ''Z1'') = Some 100)
   \<and> trigger_alert (new_manager (5 / 2)) ''safe'' ''Z1'' 50 100 100 100
        = Inr (None, new_manager (5 / 2))
   \<and> trigger_alert ((new_manager (5 / 2))\<lparr>last_alert_time := [make_key ''warning'' ''Z1'' \<mapsto> 100]\<rparr>)
        ''warning'' ''Z1'' 50 101 101 101
        = Inr (None, (new_manager (5 / 2))\<lparr>last_alert_time := [make_key ''warning'' ''Z1'' \<mapsto> 100]\<rparr>)
   \<and> (\<exists>a s'. trigger_alert
          ((new_manager (5 / 2))\<lparr>last_alert_time := [make_key ''warning'' ''Z1'' \<mapsto> 100]\<rparr>)
          ''warning'' ''Z2'' 50 101 101 101 = Inr (Some a, s')
        \<and> last_time s' (make_key ''warning'' ''Z1'') = 100
        \<and> last_time s' (make_key ''warning'' ''Z2'') = 101)
   \<and> (\<exists>a s'. trigger_alert
          ((new_manager (5 / 2))\<lparr>last_alert_time := [make_key ''warning'' ''Z1'' \<mapsto> 100]\<rparr>)
          ''critical'' ''Z1'' 50 101 101 101 = Inr (Some a, s')
        \<and> last_time s' (make_key ''warning'' ''Z1'') = 100)"
proof -
  let ?m = "new_manager (5 / 2)"
  let ?m2 = "?m\<lparr>last_alert_time := [make_key ''warning'' ''Z1'' \<mapsto> 100]\<rparr>"
  have ok: "''warning'' \<in> {''warning'', ''critical'', ''emergency''}
            \<and> 100 - last_time ?m (make_key ''warning'' ''Z1'') \<ge> cooldown_seconds ?m"
    by (simp add: new_manager_def last_time_def)
  have blocked: "\<not> (''warning'' \<in> {''warning'', ''critical'', ''emergency''}
            \<and> 101 - last_time ?m2 (make_key ''warning'' ''Z1'') \<ge> cooldown_seconds ?m2)"
    by (simp add: new_manager_def last_time_def)
  have unsafe: "\<not> (''safe'' \<in> {''warning'', ''critical'', ''emergency''}
            \<and> 100 - last_time ?m (make_key ''safe'' ''Z1'') \<ge> cooldown_seconds ?m)"
    by simp
  note c1 = C5_trigger_alert_gate [of ?m "''warning''" "''Z1''" 50 100 100 100]
  from c1 [THEN conjunct1] ok obtain a s' where
    t: "trigger_alert ?m ''warning'' ''Z1'' 50 100 100 100 = Inr (Some a, s')"
    by blast
  note e1 = c1 [THEN conjunct2, THEN conjunct2, THEN conjunct1, rule_format, OF t]
  have "active_alerts s' = [a]" "alert_history s' = [a]"
    "last_alert_time s' (make_key ''warning'' ''Z1'') = Some 100"
    using e1 by (simp_all add: new_manager_def)
  with t have p1: "\<exists>a s'. trigger_alert ?m ''warning'' ''Z1'' 50 100 100 100 = Inr (Some a, s')
           \<and> active_alerts s' = [a] \<and> alert_history s' = [a]
           \<and> last_alert_time s' (make_key ''warning'' ''Z1'') = Some 100"
    by blast
  have p2: "trigger_alert ?m ''safe'' ''Z1'' 50 100 100 100 = Inr (None, ?m)"
    using C5_trigger_alert_gate [of ?m "''safe''" "''Z1''" 50 100 100 100,
            THEN conjunct2, THEN conjunct1, rule_format, OF unsafe] .
  have p3: "trigger_alert ?m2 ''warning'' ''Z1'' 50 101 101 101 = Inr (None, ?m2)"
    using C5_trigger_alert_gate [of ?m2 "''warning''" "''Z1''" 50 101 101 101,
            THEN conjunct2, THEN conjunct1, rule_format, OF blocked] .
  have l1: "last_time ?m2 (make_key ''warning'' ''Z1'') = 100"
    by (simp add: new_manager_def last_time_def)
  have ok2: "''warning'' \<in> {''warning'', ''critical'', ''emergency''}
             \<and> 101 - last_time ?m2 (make_key ''warning'' ''Z2'') \<ge> cooldown_seconds ?m2"
    by (simp add: new_manager_def last_time_def make_key_def)
  note c4 = C5_trigger_alert_gate [of ?m2 "''warning''" "''Z2''" 50 101 101 101]
  from c4 [THEN conjunct1] ok2 obtain a4 s4 where
    t4: "trigger_alert ?m2 ''warning'' ''Z2'' 50 101 101 101 = Inr (Some a4, s4)"
    by blast
  have d4: "''warning'' \<in> {''warning'', ''critical'', ''emergency''}
            \<and> (''warning'' \<noteq> ''warning'' \<or> ''Z1'' \<noteq> ''Z2'')"
    by simp
  have o4: "last_time s4 (make_key ''warning'' ''Z1'') = last_time ?m2 (make_key ''warning'' ''Z1'')"
    using c4 [THEN conjunct2, THEN conjunct2, THEN conjunct2, THEN conjunct2, rule_format,
              of a4 s4 "''warning''" "''Z1''"] t4 d4
    by blast
  have n4: "last_time s4 (make_key ''warning'' ''Z2'') = 101"
    using c4 [THEN conjunct2, THEN conjunct2, THEN conjunct1, rule_format, OF t4] by blast
  have p4: "\<exists>a s'. trigger_alert ?m2 ''warning'' ''Z2'' 50 101 101 101 = Inr (Some a, s')
        \<and> last_time s' (make_key ''warning'' ''Z1'') = 100
        \<and> last_time s' (make_key ''warning'' ''Z2'') = 101"
    using t4 o4 n4 l1 by (intro exI [of _ a4] exI [of _ s4]) (simp only: simp_thms)
  have ok3: "''critical'' \<in> {''warning'', ''critical'', ''emergency''}
             \<and> 101 - last_time ?m2 (make_key ''critical'' ''Z1'') \<ge> cooldown_seconds ?m2"
    by (simp add: new_manager_def last_time_def make_key_def)
  note c5 = C5_trigger_alert_gate [of ?m2 "''critical''" "''Z1''" 50 101 101 101]
  from c5 [THEN conjunct1] ok3 obtain a5 s5 where
    t5: "trigger_alert ?m2 ''critical'' ''Z1'' 50 101 101 101 = Inr (Some a5, s5)"
    by blast
  have d5: "''warning'' \<in> {''warning'', ''critical'', ''emergency''}
            \<and> (''warning'' \<noteq> ''critical'' \<or> ''Z1'' \<noteq> ''Z1'')"
    by simp
  have o5: "last_time s5 (make_key ''warning'' ''Z1'') = last_time ?m2 (make_key ''warning'' ''Z1'')"
    using c5 [THEN conjunct2, THEN conjunct2, THEN conjunct2, THEN conjunct2, rule_format,
              of a5 s5 "''warning''" "''Z1''"] t5 d5
    by blast
  have p5: "\<exists>a s'. trigger_alert ?m2 ''critical'' ''Z1'' 50 101 101 101 = Inr (Some a, s')
        \<and> last_time s' (make_key ''warning'' ''Z1'') = 100"
    using t5 o5 l1 by (intro exI [of _ a5] exI [of _ s5]) (simp only: simp_thms)
  from p1 p2 p3 p4 p5 show ?thesis by (intro conjI)
qed

lemma summary_step_total: "total_alerts (summary_step a s) = total_alerts s"
  by (simp add: summary_step_def Let_def)

lemma summary_step_by_level: "by_level (summary_step a s) = count_level (by_level s) (a_level a)"
  by (simp add: summary_step_def Let_def)

lemma summary_step_highest:
  "highest_severity (summary_step a s)
     = (if a_severity a > highest_severity s then a_severity a else highest_severity s)"
  "highest_priority (summary_step a s)
     = (if a_severity a > highest_severity s then Some a else highest_priority s)"
  by (simp_all add: summary_step_def Let_def)

lemma count_level_keys: "map fst (count_level bl l) = map fst bl"
  by (induction bl) (auto simp: count_level_def)

lemma count_level_keyset: "fst ` set (count_level bl l) = fst ` set bl"
  using count_level_keys [of bl l] by (metis set_map)

lemma bump_sum:
  "distinct (map fst bl) \<Longrightarrow> l \<in> set (map fst bl) \<Longrightarrow>
   sum_list (map snd (map (\<lambda>(k, c). if k = l then (k, c + 1) else (k, c)) bl))
     = sum_list (map snd bl) + (1::nat)"
proof (induction bl)
  case Nil
  then show ?case by simp
next
  case (Cons p bl)
  obtain k c where p: "p = (k, c)" by (cases p)
  show ?case
  proof (cases "k = l")
    case True
    with Cons.prems p have "l \<notin> set (map fst bl)" by auto
    then have "map (\<lambda>(k, c). if k = l then (k, c + 1) else (k, c)) bl = bl"
      by (induction bl) auto
    with True p show ?thesis by simp
  next
    case False
    with Cons p show ?thesis by auto
  qed
qed

lemma count_level_sum:
  "distinct (map fst bl) \<Longrightarrow>
   sum_list (map snd (count_level bl l))
     = sum_list (map snd bl) + (if l \<in> set (map fst bl) then 1 else 0)"
  using bump_sum [of bl l] by (simp add: count_level_def)

lemma fold_by_level:
  "distinct (map fst (by_level s)) \<Longrightarrow>
   map fst (by_level (fold summary_step xs s)) = map fst (by_level s)
   \<and> sum_list (map snd (by_level (fold summary_step xs s)))
       = sum_list (map snd (by_level s))
         + length (filter (\<lambda>a. a_level a \<in> set (map fst (by_level s))) xs)"
proof (induction xs arbitrary: s)
  case Nil
  then show ?case by simp
next
  case (Cons x xs)
  have k: "map fst (by_level (summary_step x s)) = map fst (by_level s)"
    by (simp add: summary_step_by_level count_level_keys)
  with Cons.prems have d: "distinct (map fst (by_level (summary_step x s)))" by simp
  from Cons.IH [OF d] k count_level_sum [OF Cons.prems, of "a_level x"]
  show ?case by (simp add: summary_step_by_level count_level_keyset)
qed

lemma fold_total: "total_alerts (fold summary_step xs s) = total_alerts s"
  by (induction xs arbitrary: s) (simp_all add: summary_step_total)

text \<open>
  C8 (amended). The per-level counts of the summary add up to the number of alerts whose
  level is \<open>emergency\<close>, \<open>critical\<close> or \<open>warning\<close>; \<open>total_alerts\<close> is the length of the list.
  For a list of alerts that all carry one of these three levels, the sum of the per-level
  counts equals \<open>total_alerts\<close>.
\<close>

theorem C8_by_level_counts_alerting_levels:
  "sum_list (map snd (by_level (generate_alert_summary alerts)))
     = length (filter (\<lambda>a. a_level a \<in> {''emergency'', ''critical'', ''warning''}) alerts)
   \<and> total_alerts (generate_alert_summary alerts) = length alerts
   \<and> ((\<forall>a \<in> set alerts. a_level a \<in> {''emergency'', ''critical'', ''warning''})
       \<longrightarrow> sum_list (map snd (by_level (generate_alert_summary alerts)))
           = total_alerts (generate_alert_summary alerts))"
proof -
  have d: "distinct (map fst (by_level (summary_init alerts)))"
    by (simp add: summary_init_def)
  have "sum_list (map snd (by_level (generate_alert_summary alerts)))
     = length (filter (\<lambda>a. a_level a \<in> {''emergency'', ''critical'', ''warning''}) alerts)"
    using fold_by_level [OF d, of alerts]
    by (simp add: generate_alert_summary_def Let_def summary_init_def)
  moreover have "total_alerts (generate_alert_summary alerts) = length alerts"
    by (simp add: generate_alert_summary_def Let_def fold_total) (simp add: summary_init_def)
  ultimately show ?thesis by (simp add: filter_id_conv)
qed

text \<open>
  C8 as stated fails for a list holding one alert of level \<open>safe\<close>: the counts add up to 0,
  \<open>total_alerts\<close> is 1.
\<close>

theorem C8_non_alerting_level_counterexample:
  "sum_list (map snd (by_level (generate_alert_summary [example_alert ''safe'' 0 ''Z1'' 15]))) = 0
   \<and> total_alerts (generate_alert_summary [example_alert ''safe'' 0 ''Z1'' 15]) = 1"
  by (simp add: generate_alert_summary_def Let_def summary_init_def summary_step_def
                count_level_def example_alert_def)

theorem C8_by_level_counts_witness:
  "sum_list (map snd (by_level (generate_alert_summary
       [example_alert ''warning'' 2 ''Z1'' 50, example_alert ''emergency'' 4 ''Z2'' 90]))) = 2
   \<and> total_alerts (generate_alert_summary
       [example_alert ''warning'' 2 ''Z1'' 50, example_alert ''emergency'' 4 ''Z2'' 90]) = 2"
  using C8_by_level_counts_alerting_levels [of "[example_alert ''warning'' 2 ''Z1'' 50, example_alert ''emergency'' 4 ''Z2'' 90]"]
  by (simp add: example_alert_def)

lemma fold_highest:
  "(if \<forall>a \<in> set xs. a_severity a \<le> highest_severity s
    then highest_priority (fold summary_step xs s) = highest_priority s
         \<and> highest_severity (fold summary_step xs s) = highest_severity s
    else \<exists>pre a post. xs = pre @ a # post
         \<and> highest_priority (fold summary_step xs s) = Some a
         \<and> highest_severity (fold summary_step xs s) = a_severity a
         \<and> highest_severity s < a_severity a
         \<and> (\<forall>b \<in> set pre. a_severity b < a_severity a)
         \<and> (\<forall>b \<in> set post. a_severity b \<le> a_severity a))"
proof (induction xs rule: rev_induct)
  case Nil
  then show ?case by simp
next
  case (snoc x xs)
  let ?t = "fold summary_step xs s"
  let ?h = "highest_severity s"
  show ?case
  proof (cases "\<forall>a \<in> set xs. a_severity a \<le> ?h")
    case True
    with snoc have t: "highest_priority ?t = highest_priority s" "highest_severity ?t = ?h"
      by simp_all
    show ?thesis
    proof (cases "a_severity x \<le> ?h")
      case le: True
      with True t show ?thesis by (simp add: summary_step_highest)
    next
      case gt: False
      then have "xs @ [x] = xs @ x # []
         \<and> highest_priority (fold summary_step (xs @ [x]) s) = Some x
         \<and> highest_severity (fold summary_step (xs @ [x]) s) = a_severity x
         \<and> ?h < a_severity x
         \<and> (\<forall>b \<in> set xs. a_severity b < a_severity x)
         \<and> (\<forall>b \<in> set []. a_severity b \<le> a_severity x)"
        using True t by (auto simp: summary_step_highest)
      then have "\<exists>pre a post. xs @ [x] = pre @ a # post
         \<and> highest_priority (fold summary_step (xs @ [x]) s) = Some a
         \<and> highest_severity (fold summary_step (xs @ [x]) s) = a_severity a
         \<and> ?h < a_severity a
         \<and> (\<forall>b \<in> set pre. a_severity b < a_severity a)
         \<and> (\<forall>b \<in> set post. a_severity b \<le> a_severity a)"
        by blast
      with gt show ?thesis by auto
    qed
  next
    case False
    with snoc obtain pre a post where
      xs: "xs = pre @ a # post"
      and hp: "highest_priority ?t = Some a"
      and hs: "highest_severity ?t = a_severity a"
      and gt: "?h < a_severity a"
      and pre: "\<forall>b \<in> set pre. a_severity b < a_severity a"
      and post: "\<forall>b \<in> set post. a_severity b \<le> a_severity a"
      by auto
    from False have nall: "\<not> (\<forall>a \<in> set (xs @ [x]). a_severity a \<le> ?h)" by auto
    have "\<exists>pre a post. xs @ [x] = pre @ a # post
         \<and> highest_priority (fold summary_step (xs @ [x]) s) = Some a
         \<and> highest_severity (fold summary_step (xs @ [x]) s) = a_severity a
         \<and> ?h < a_severity a
         \<and> (\<forall>b \<in> set pre. a_severity b < a_severity a)
         \<and> (\<forall>b \<in> set post. a_severity b \<le> a_severity a)"
    proof (cases "a_severity x > a_severity a")
      case True
      have "xs @ [x] = xs @ x # []
         \<and> highest_priority (fold summary_step (xs @ [x]) s) = Some x
         \<and> highest_severity (fold summary_step (xs @ [x]) s) = a_severity x
         \<and> ?h < a_severity x
         \<and> (\<forall>b \<in> set xs. a_severity b < a_severity x)
         \<and> (\<forall>b \<in> set []. a_severity b \<le> a_severity x)"
        using True hs gt pre post xs by (auto simp: summary_step_highest)
      then show ?thesis by blast
    next
      case False
      have "xs @ [x] = pre @ a # (post @ [x])
         \<and> highest_priority (fold summary_step (xs @ [x]) s) = Some a
         \<and> highest_severity (fold summary_step (xs @ [x]) s) = a_severity a
         \<and> ?h < a_severity a
         \<and> (\<forall>b \<in> set pre. a_severity b < a_severity a)
         \<and> (\<forall>b \<in> set (post @ [x]). a_severity b \<le> a_severity a)"
        using False hs hp gt pre post xs by (auto simp: summary_step_highest)
      then show ?thesis by blast
    qed
    with nall show ?thesis by (simp only: if_False)
  qed
qed

text \<open>
  C10 (amended). When some alert's severity exceeds 0, \<open>highest_priority\<close> is the first
  alert of the list that attains the greatest severity; when no severity exceeds 0 it is
  \<open>None\<close> and \<open>highest_severity\<close> is 0. The level plays no part: for an \<open>emergency\<close>
  alert of severity 10 followed by a \<open>warning\<close> alert of severity 90, the \<open>warning\<close>
  alert is reported.
\<close>

theorem C10_highest_priority_first_max_severity:
  "((\<forall>a \<in> set alerts. a_severity a \<le> 0)
      \<longrightarrow> highest_priority (generate_alert_summary alerts) = None
        \<and> highest_severity (generate_alert_summary alerts) = 0)
   \<and> ((\<exists>a \<in> set alerts. a_severity a > 0)
      \<longrightarrow> (\<exists>pre a post. alerts = pre @ a # post
            \<and> highest_priority (generate_alert_summary alerts) = Some a
            \<and> highest_severity (generate_alert_summary alerts) = a_severity a
            \<and> (\<forall>b \<in> set pre. a_severity b < a_severity a)
            \<and> (\<forall>b \<in> set post. a_severity b \<le> a_severity a)))
   \<and> highest_priority (generate_alert_summary
         [example_alert ''emergency'' 4 ''Z1'' 10, example_alert ''warning'' 2 ''Z2'' 90])
       = Some (example_alert ''warning'' 2 ''Z2'' 90)"
proof -
  let ?s = "summary_init alerts"
  have hp: "highest_priority (generate_alert_summary alerts)
              = highest_priority (fold summary_step alerts ?s)"
    and hs: "highest_severity (generate_alert_summary alerts)
              = highest_severity (fold summary_step alerts ?s)"
    by (simp_all add: generate_alert_summary_def Let_def)
  have i: "highest_severity ?s = 0" "highest_priority ?s = None"
    by (simp_all add: summary_init_def)
  have p1: "highest_priority (generate_alert_summary alerts) = None
        \<and> highest_severity (generate_alert_summary alerts) = 0"
    if "\<forall>a \<in> set alerts. a_severity a \<le> 0"
    using fold_highest [of alerts ?s] that by (simp add: hp hs i)
  have p2: "\<exists>pre a post. alerts = pre @ a # post
            \<and> highest_priority (generate_alert_summary alerts) = Some a
            \<and> highest_severity (generate_alert_summary alerts) = a_severity a
            \<and> (\<forall>b \<in> set pre. a_severity b < a_severity a)
            \<and> (\<forall>b \<in> set post. a_severity b \<le> a_severity a)"
    if "\<exists>a \<in> set alerts. a_severity a > 0"
  proof -
    from that have "\<not> (\<forall>a \<in> set alerts. a_severity a \<le> highest_severity ?s)"
      by (auto simp: i not_le)
    with fold_highest [of alerts ?s] show ?thesis
      by (simp only: if_False hp hs) blast
  qed
  have p3: "highest_priority (generate_alert_summary
         [example_alert ''emergency'' 4 ''Z1'' 10, example_alert ''warning'' 2 ''Z2'' 90])
       = Some (example_alert ''warning'' 2 ''Z2'' 90)"
    by (simp add: generate_alert_summary_def Let_def summary_init_def summary_step_def
                  example_alert_def)
  from p1 p2 p3 show ?thesis by blast
qed

text \<open>
  C10 as stated fails for a list holding one alert of severity 0: that alert has the
  greatest severity of the list, and \<open>highest_priority\<close> is \<open>None\<close>.
\<close>

theorem C10_zero_severity_counterexample:
  "highest_priority (generate_alert_summary [example_alert ''emergency'' 4 ''Z1'' 0]) = None
   \<and> a_severity (example_alert ''emergency'' 4 ''Z1'' 0) = 0
   \<and> total_alerts (generate_alert_summary [example_alert ''emergency'' 4 ''Z1'' 0]) = 1"
  by (simp add: generate_alert_summary_def Let_def summary_init_def summary_step_def
                count_level_def example_alert_def)

theorem C10_highest_priority_witness:
  "highest_priority (generate_alert_summary
       [example_alert ''warning'' 2 ''Z1'' 50, example_alert ''critical'' 3 ''Z2'' 50])
     = Some (example_alert ''warning'' 2 ''Z1'' 50)
   \<and> highest_priority (generate_alert_summary [example_alert ''warning'' 2 ''Z1'' 0]) = None"
proof -
  let ?w = "example_alert ''warning'' 2 ''Z1'' 50"
  let ?c = "example_alert ''critical'' 3 ''Z2'' 50"
  have sw: "a_severity ?w = 50" and sc: "a_severity ?c = 50"
    by (simp_all add: example_alert_def)
  have "\<exists>a \<in> set [?w, ?c]. a_severity a > 0" by (simp add: sw)
  with C10_highest_priority_first_max_severity [of "[?w, ?c]"] obtain pre a post where
    sp: "[?w, ?c] = pre @ a # post"
    and hp: "highest_priority (generate_alert_summary [?w, ?c]) = Some a"
    and pre: "\<forall>b \<in> set pre. a_severity b < a_severity a"
    by blast
  have "a = ?w"
  proof (cases pre)
    case Nil
    with sp show ?thesis by simp
  next
    case (Cons p ps)
    with sp have p: "p = ?w" by simp
    from sp Cons have "a \<in> set [?w, ?c]" by (metis in_set_conv_decomp)
    then have "a_severity a = 50" using sw sc by auto
    with pre Cons p sw show ?thesis by simp
  qed
  with hp have a: "highest_priority (generate_alert_summary [?w, ?c]) = Some ?w" by simp
  have "\<forall>a \<in> set [example_alert ''warning'' 2 ''Z1'' 0]. a_severity a \<le> 0"
    by (simp add: example_alert_def)
  with C10_highest_priority_first_max_severity [of "[example_alert ''warning'' 2 ''Z1'' 0]"]
  have b: "highest_priority (generate_alert_summary [example_alert ''warning'' 2 ''Z1'' 0]) = None"
    by blast
  from a b show ?thesis by simp
qed

section \<open>Properties of batch classification\<close>

text \<open>
  C6. For an empty batch \<open>classify_all_zones\<close> returns a frame without rows. That frame has
  no columns, and \<open>get_classification_summary\<close> raises \<open>KeyError('severity')\<close> on it instead
  of returning an all-zero summary. On an empty frame that has the columns, the counts and
  percentages are 0 and the mean and maximum severity are \<open>NaN\<close>.
\<close>

theorem C6_empty_batch_summary_raises:
  "classify_all_zones self [] = Inr (DataFrame [], self)
   \<and> df_rows (DataFrame []) = []
   \<and> get_classification_summary self (DataFrame []) = Inl (KeyError ''severity'')
   \<and> (\<exists>s. get_classification_summary self \<lparr>df_columns = row_keys, df_rows = []\<rparr> = Inr s
          \<and> total_zones s = 0
          \<and> level_counts s = map (\<lambda>l. (l, 0)) level_order
          \<and> level_percentages s = map (\<lambda>l. (l, 0)) level_order
          \<and> average_severity s = NaN \<and> max_severity s = NaN)"
  by (simp add: classify_all_zones_def DataFrame_def get_classification_summary_def
                df_getcol_def row_keys_def series_mean_def series_max_def series_sum_def
                level_order_def Let_def)

end
